theory Spec2Isabelle
  imports Main
begin

section \<open>Values, objects and the store\<close>

text \<open>
  The transcoder of \<^verbatim>\<open>Source/Scene/parseBatchTable.js\<close> works on JSON-like values.
  Objects (and arrays) have identity: a value of object type is a reference into a store.
  Numbers are the integral ones plus NaN (\<^verbatim>\<open>parseInt\<close> may produce it); fractional
  numbers and infinities are not represented.
\<close>

type_synonym addr = nat

datatype jsval =
    JUndefined
  | JNull
  | JBool bool
  | JNum int
  | JNaN
  | JStr string
  | JRef addr

type_synonym props = "(string \<times> jsval) list"

text \<open>
  An object lists its own enumerable properties in \<^verbatim>\<open>for...in\<close> order, then the
  enumerable properties it reaches only through its prototype chain. Property identifiers
  are plain dictionary keys; the \<^verbatim>\<open>hasOwnProperty\<close> that the code calls is the
  built-in one.
\<close>

record jsobj =
  own :: props
  inherited :: props
  isArray :: bool

text \<open>The errors: \<^verbatim>\<open>DeveloperError\<close> is thrown by the argument checks,
  \<^verbatim>\<open>TypeError\<close> by the language. \<open>Unsupported\<close> marks a run that leaves this model:
  an addition with a string or an object among its operands.\<close>

datatype error = DeveloperError | TypeError | Unsupported

text \<open>\<^verbatim>\<open>defined(value)\<close>: neither \<^verbatim>\<open>undefined\<close> nor \<^verbatim>\<open>null\<close>.\<close>

fun defined :: "jsval \<Rightarrow> bool" where
  "defined JUndefined = False"
| "defined JNull = False"
| "defined _ = True"

text \<open>\<^verbatim>\<open>o[k]\<close> on an object: own properties shadow inherited ones; a missing key
  reads as \<^verbatim>\<open>undefined\<close>.\<close>

definition lookupProp :: "jsobj \<Rightarrow> string \<Rightarrow> jsval" where
  "lookupProp ob k =
     (case map_of (own ob) k of
        Some v \<Rightarrow> v
      | None \<Rightarrow> (case map_of (inherited ob) k of Some v \<Rightarrow> v | None \<Rightarrow> JUndefined))"

definition hasOwnProperty :: "jsobj \<Rightarrow> string \<Rightarrow> bool" where
  "hasOwnProperty ob k = (k \<in> set (map fst (own ob)))"

text \<open>The own keys of an object, each once, and the keys a \<^verbatim>\<open>for (var k in o)\<close>
  loop visits, in order: the own ones, then the inherited ones that no own key shadows.\<close>

definition ownKeys :: "jsobj \<Rightarrow> string list" where
  "ownKeys ob = remdups (map fst (own ob))"

definition forInKeys :: "jsobj \<Rightarrow> string list" where
  "forInKeys ob =
     ownKeys ob @ remdups (filter (\<lambda>k. k \<notin> set (ownKeys ob)) (map fst (inherited ob)))"

text \<open>\<^verbatim>\<open>o[k] = v\<close> on a mapping: an existing key keeps its place, a new one goes
  last.\<close>

definition assign :: "('k \<times> 'v) list \<Rightarrow> 'k \<Rightarrow> 'v \<Rightarrow> ('k \<times> 'v) list" where
  "assign ps k v =
     (if k \<in> set (map fst ps)
      then map (\<lambda>(k', v'). if k' = k then (k', v) else (k', v')) ps
      else ps @ [(k, v)])"

definition setOwn :: "jsobj \<Rightarrow> string \<Rightarrow> jsval \<Rightarrow> jsobj" where
  "setOwn ob k v = ob\<lparr>own := assign (own ob) k v\<rparr>"

definition emptyObject :: jsobj where
  "emptyObject = \<lparr>own = [], inherited = [], isArray = False\<rparr>"

text \<open>
  The store: the objects by address, the next free address, and the calls made so far to
  the hook \<^verbatim>\<open>parseBatchTable._deprecationWarning\<close> (identifier and message).
\<close>

record store =
  objs :: "addr \<Rightarrow> jsobj"
  nextAddr :: addr
  warnings :: "(string \<times> string) list"

text \<open>\<^verbatim>\<open>v.k\<close> for any value: reading a property of \<^verbatim>\<open>undefined\<close> or
  \<^verbatim>\<open>null\<close> throws; the primitives have none of the properties read here.\<close>

fun getProp :: "store \<Rightarrow> jsval \<Rightarrow> string \<Rightarrow> error + jsval" where
  "getProp s JUndefined k = Inl TypeError"
| "getProp s JNull k = Inl TypeError"
| "getProp s (JRef a) k = Inr (lookupProp (objs s a) k)"
| "getProp s _ k = Inr JUndefined"

text \<open>\<^verbatim>\<open>Array.isArray(v)\<close>.\<close>

fun isArrayVal :: "store \<Rightarrow> jsval \<Rightarrow> bool" where
  "isArrayVal s (JRef a) = isArray (objs s a)"
| "isArrayVal s _ = False"

section \<open>Type mapper\<close>

text \<open>\<^verbatim>\<open>transcodeComponentType\<close>: a \<^verbatim>\<open>switch\<close> on the tag (strict equality); falling
  out of it returns \<^verbatim>\<open>undefined\<close>.\<close>

definition transcodeComponentType :: "jsval \<Rightarrow> jsval" where
  "transcodeComponentType componentType =
     (if componentType = JStr ''BYTE'' then JStr ''INT8''
      else if componentType = JStr ''UNSIGNED_BYTE'' then JStr ''UINT8''
      else if componentType = JStr ''SHORT'' then JStr ''INT16''
      else if componentType = JStr ''UNSIGNED_SHORT'' then JStr ''UINT16''
      else if componentType = JStr ''INT'' then JStr ''INT32''
      else if componentType = JStr ''UNSIGNED_INT'' then JStr ''UINT32''
      else if componentType = JStr ''FLOAT'' then JStr ''FLOAT32''
      else if componentType = JStr ''DOUBLE'' then JStr ''FLOAT64''
      else JUndefined)"

text \<open>\<^verbatim>\<open>str.charAt(3)\<close>: the character at index 3, or the empty string.\<close>

definition charAt3 :: "string \<Rightarrow> string" where
  "charAt3 str = (if 3 < length str then [str ! 3] else [])"

text \<open>\<^verbatim>\<open>parseInt\<close> of a string of at most one character: a decimal digit gives its
  value, anything else NaN.\<close>

definition digitValue :: "char \<Rightarrow> int option" where
  "digitValue c =
     map_of [(CHR ''0'', 0), (CHR ''1'', 1), (CHR ''2'', 2), (CHR ''3'', 3), (CHR ''4'', 4),
             (CHR ''5'', 5), (CHR ''6'', 6), (CHR ''7'', 7), (CHR ''8'', 8), (CHR ''9'', 9)] c"

fun parseIntChar :: "string \<Rightarrow> jsval" where
  "parseIntChar [c] = (case digitValue c of Some d \<Rightarrow> JNum d | None \<Rightarrow> JNaN)"
| "parseIntChar _ = JNaN"

text \<open>\<^verbatim>\<open>propertyType.charAt(3)\<close>: only a string has the method; on any other value the
  call throws.\<close>

fun callCharAt3 :: "jsval \<Rightarrow> error + string" where
  "callCharAt3 (JStr str) = Inr (charAt3 str)"
| "callCharAt3 _ = Inl TypeError"

text \<open>\<^verbatim>\<open>transcodePropertyType(property)\<close>; the object literal it returns is given by
  its properties.\<close>

definition transcodePropertyType :: "store \<Rightarrow> jsval \<Rightarrow> error + props" where
  "transcodePropertyType s property =
     (case getProp s property ''componentType'' of
        Inl e \<Rightarrow> Inl e
      | Inr ct \<Rightarrow>
          (let componentType = transcodeComponentType ct in
           case getProp s property ''type'' of
             Inl e \<Rightarrow> Inl e
           | Inr propertyType \<Rightarrow>
               if propertyType = JStr ''SCALAR'' then Inr [(''type'', componentType)]
               else (case callCharAt3 propertyType of
                       Inl e \<Rightarrow> Inl e
                     | Inr ch \<Rightarrow>
                         Inr [(''type'', JStr ''ARRAY''),
                              (''componentType'', componentType),
                              (''componentCount'', parseIntChar ch)])))"

section \<open>Property partitioner\<close>

text \<open>Assignment \<^verbatim>\<open>target[k] = v\<close> in module (strict) code: it writes the own
  property of an object, and throws on any other target.\<close>

fun setProp :: "store \<Rightarrow> jsval \<Rightarrow> string \<Rightarrow> jsval \<Rightarrow> error + store" where
  "setProp s (JRef a) k v = Inr (s\<lparr>objs := (objs s)(a := setOwn (objs s a) k v)\<rparr>)"
| "setProp s _ k v = Inl TypeError"

text \<open>The object literal \<^verbatim>\<open>{}\<close> that escapes into the result is allocated at the
  next free address.\<close>

definition newObject :: "store \<Rightarrow> jsval \<times> store" where
  "newObject s =
     (JRef (nextAddr s),
      s\<lparr>objs := (objs s)(nextAddr s := emptyObject), nextAddr := Suc (nextAddr s)\<rparr>)"

definition deprecationWarning :: "store \<Rightarrow> string \<Rightarrow> string \<Rightarrow> store" where
  "deprecationWarning s identifier message = s\<lparr>warnings := warnings s @ [(identifier, message)]\<rparr>"

definition hierarchyKey :: string where
  "hierarchyKey = ''3DTILES_batch_table_hierarchy''"

definition hierarchyMessage :: string where
  "hierarchyMessage = ''The batch table HIERARCHY property has been moved to an extension. Use extensions.3DTILES_batch_table_hierarchy instead.''"

record partition_result =
  binaryProperties :: jsobj
  jsonProperties :: jsobj
  extras :: jsval
  extensions :: jsval

text \<open>The \<^verbatim>\<open>for (var propertyId in batchTable)\<close> loop of
  \<^verbatim>\<open>partitionProperties\<close>, over the keys still to visit; the accumulator is
  \<^verbatim>\<open>(jsonProperties, binaryProperties)\<close>.\<close>

fun partitionLoop :: "store \<Rightarrow> jsobj \<Rightarrow> string list \<Rightarrow> jsobj \<times> jsobj \<Rightarrow> jsobj \<times> jsobj" where
  "partitionLoop s bt [] acc = acc"
| "partitionLoop s bt (propertyId # ks) (jsonP, binP) =
     (if \<not> hasOwnProperty bt propertyId \<or>
         propertyId = ''HIERARCHY'' \<or>
         propertyId = ''extensions'' \<or>
         propertyId = ''extras''
      then partitionLoop s bt ks (jsonP, binP)
      else
        (let property = lookupProp bt propertyId in
         if isArrayVal s property
         then partitionLoop s bt ks (setOwn jsonP propertyId property, binP)
         else partitionLoop s bt ks (jsonP, setOwn binP propertyId property)))"

text \<open>The legacy branch of \<^verbatim>\<open>partitionProperties\<close> (lines 85 to 92): the value of
  \<^verbatim>\<open>extensions\<close> afterwards, and the store.\<close>

definition foldLegacyHierarchy :: "store \<Rightarrow> jsval \<Rightarrow> jsval \<Rightarrow> error + (jsval \<times> store)" where
  "foldLegacyHierarchy s legacyHierarchy exts =
     (if defined legacyHierarchy then
        (let s1 = deprecationWarning s ''batchTableHierarchyExtension'' hierarchyMessage;
             (exts1, s2) = (if defined exts then (exts, s1) else newObject s1)
         in case setProp s2 exts1 hierarchyKey legacyHierarchy of
              Inl e \<Rightarrow> Inl e
            | Inr s3 \<Rightarrow> Inr (exts1, s3))
      else Inr (exts, s))"

text \<open>\<^verbatim>\<open>partitionProperties(batchTable)\<close>, the batch table given by its address.\<close>

definition partitionProperties :: "store \<Rightarrow> addr \<Rightarrow> error + (partition_result \<times> store)" where
  "partitionProperties s batchTable =
     (let legacyHierarchy = lookupProp (objs s batchTable) ''HIERARCHY'';
          extras0 = lookupProp (objs s batchTable) ''extras'';
          extensions0 = lookupProp (objs s batchTable) ''extensions''
      in case foldLegacyHierarchy s legacyHierarchy extensions0 of
           Inl e \<Rightarrow> Inl e
         | Inr (extensions1, s') \<Rightarrow>
             (let bt = objs s' batchTable;
                  (jsonP, binP) = partitionLoop s' bt (forInKeys bt) (emptyObject, emptyObject)
              in Inr (\<lparr>binaryProperties = binP, jsonProperties = jsonP,
                        extras = extras0, extensions = extensions1\<rparr>, s')))"

section \<open>Hierarchy initializer\<close>

text \<open>Modelled from the spec: the hierarchy object of \<^verbatim>\<open>BatchTableHierarchy.js\<close>
  (not among the sources), an external collaborator constructed from the extension payload
  and the shared binary buffer; it is kept as the options it was constructed from.\<close>

record batchTableHierarchy =
  bth_extension :: jsval
  bth_binaryBody :: jsval

text \<open>\<^verbatim>\<open>initializeHierarchy(extensions, binaryBody)\<close>; \<open>None\<close> is
  \<^verbatim>\<open>undefined\<close>.\<close>

definition initializeHierarchy :: "store \<Rightarrow> jsval \<Rightarrow> jsval \<Rightarrow> error + batchTableHierarchy option" where
  "initializeHierarchy s exts binaryBody =
     (if \<not> defined exts then Inr None
      else (case getProp s exts hierarchyKey of
              Inl e \<Rightarrow> Inl e
            | Inr hierarchy \<Rightarrow>
                if \<not> defined hierarchy then Inr None
                else Inr (Some \<lparr>bth_extension = hierarchy, bth_binaryBody = binaryBody\<rparr>)))"

section \<open>Binary property transcoder\<close>

text \<open>\<^verbatim>\<open>a + b\<close> on values: a numeric sum after \<^verbatim>\<open>ToNumber\<close> of each operand.
  With a string or an object among the operands the operator concatenates strings, which
  is outside this model.\<close>

fun toNumber :: "jsval \<Rightarrow> error + jsval" where
  "toNumber JUndefined = Inr JNaN"
| "toNumber JNull = Inr (JNum 0)"
| "toNumber (JBool b) = Inr (JNum (if b then 1 else 0))"
| "toNumber (JNum n) = Inr (JNum n)"
| "toNumber JNaN = Inr JNaN"
| "toNumber (JStr str) = Inl Unsupported"
| "toNumber (JRef a) = Inl Unsupported"

fun addNumbers :: "jsval \<Rightarrow> jsval \<Rightarrow> jsval" where
  "addNumbers (JNum x) (JNum y) = JNum (x + y)"
| "addNumbers _ _ = JNaN"

definition jsAdd :: "jsval \<Rightarrow> jsval \<Rightarrow> error + jsval" where
  "jsAdd a b =
     (case toNumber a of
        Inl e \<Rightarrow> Inl e
      | Inr x \<Rightarrow> (case toNumber b of Inl e \<Rightarrow> Inl e | Inr y \<Rightarrow> Inr (addNumbers x y)))"

text \<open>Modelled from the spec: the binary accessor of \<^verbatim>\<open>getBinaryAccessor.js\<close> (not
  among the sources), a pure function of the property's component type and property type.\<close>

record binaryAccessor =
  acc_componentType :: jsval
  acc_type :: jsval

definition getBinaryAccessor :: "store \<Rightarrow> jsval \<Rightarrow> error + binaryAccessor" where
  "getBinaryAccessor s property =
     (case getProp s property ''componentType'' of
        Inl e \<Rightarrow> Inl e
      | Inr ct \<Rightarrow>
          (case getProp s property ''type'' of
             Inl e \<Rightarrow> Inl e
           | Inr ty \<Rightarrow> Inr \<lparr>acc_componentType = ct, acc_type = ty\<rparr>))"

text \<open>Modelled from the spec: the typed view that \<^verbatim>\<open>createArrayBufferView\<close> of the
  binary accessor (not among the sources) constructs over the shared buffer: it begins at
  the byte offset it is given, spans the given number of logical elements, and shares the
  buffer's storage (it refers to the buffer, it holds no copy).\<close>

record bufferView =
  view_accessor :: binaryAccessor
  view_buffer :: jsval
  view_byteOffset :: jsval
  view_elementCount :: jsval

definition createArrayBufferView :: "binaryAccessor \<Rightarrow> jsval \<Rightarrow> jsval \<Rightarrow> jsval \<Rightarrow> bufferView" where
  "createArrayBufferView acc buffer byteOffset len =
     \<lparr>view_accessor = acc, view_buffer = buffer,
      view_byteOffset = byteOffset, view_elementCount = len\<rparr>"

text \<open>The three mappings and the counter that the loop of
  \<^verbatim>\<open>transcodeBinaryProperties\<close> updates.\<close>

record transcode_state =
  classProperties :: "(string \<times> props) list"
  featureTableProperties :: "(string \<times> props) list"
  bufferViewsU8 :: "(nat \<times> bufferView) list"
  bufferViewCount :: nat

text \<open>The call of lines 152 to 156,
  \<^verbatim>\<open>binaryAccessor.createArrayBufferView(binaryBody.buffer, binaryBody.byteOffset + property.byteOffset, featureCount)\<close>,
  its arguments evaluated from left to right.\<close>

definition createPropertyView ::
  "store \<Rightarrow> jsval \<Rightarrow> jsval \<Rightarrow> jsval \<Rightarrow> binaryAccessor \<Rightarrow> error + bufferView" where
  "createPropertyView s featureCount binaryBody property acc =
     (case getProp s binaryBody ''buffer'' of
        Inl e \<Rightarrow> Inl e
      | Inr buffer \<Rightarrow>
     (case getProp s binaryBody ''byteOffset'' of
        Inl e \<Rightarrow> Inl e
      | Inr bodyOffset \<Rightarrow>
     (case getProp s property ''byteOffset'' of
        Inl e \<Rightarrow> Inl e
      | Inr propertyOffset \<Rightarrow>
     (case jsAdd bodyOffset propertyOffset of
        Inl e \<Rightarrow> Inl e
      | Inr byteOffset \<Rightarrow> Inr (createArrayBufferView acc buffer byteOffset featureCount)))))"

text \<open>One pass of the loop body (lines 140 to 158) for \<^verbatim>\<open>propertyId\<close>.\<close>

definition transcodeStep ::
  "store \<Rightarrow> jsval \<Rightarrow> jsobj \<Rightarrow> jsval \<Rightarrow> string \<Rightarrow> transcode_state \<Rightarrow> error + transcode_state" where
  "transcodeStep s featureCount binaryProps binaryBody propertyId st =
     (if \<not> hasOwnProperty binaryProps propertyId then Inr st
      else
        (let property = lookupProp binaryProps propertyId in
         case getBinaryAccessor s property of
           Inl e \<Rightarrow> Inl e
         | Inr acc \<Rightarrow>
        (case transcodePropertyType s property of
           Inl e \<Rightarrow> Inl e
         | Inr classProperty \<Rightarrow>
        (case createPropertyView s featureCount binaryBody property acc of
           Inl e \<Rightarrow> Inl e
         | Inr view \<Rightarrow>
             Inr \<lparr>classProperties = assign (classProperties st) propertyId classProperty,
                  featureTableProperties =
                    assign (featureTableProperties st) propertyId
                      [(''bufferView'', JNum (int (bufferViewCount st)))],
                  bufferViewsU8 = assign (bufferViewsU8 st) (bufferViewCount st) view,
                  bufferViewCount = Suc (bufferViewCount st)\<rparr>))))"

fun transcodeLoop ::
  "store \<Rightarrow> jsval \<Rightarrow> jsobj \<Rightarrow> jsval \<Rightarrow> string list \<Rightarrow> transcode_state \<Rightarrow> error + transcode_state" where
  "transcodeLoop s featureCount binaryProps binaryBody [] st = Inr st"
| "transcodeLoop s featureCount binaryProps binaryBody (propertyId # ks) st =
     (case transcodeStep s featureCount binaryProps binaryBody propertyId st of
        Inl e \<Rightarrow> Inl e
      | Inr st' \<Rightarrow> transcodeLoop s featureCount binaryProps binaryBody ks st')"

text \<open>Modelled from the spec: the schema object of \<^verbatim>\<open>MetadataSchema.js\<close> (not among
  the sources), kept as the classes of the JSON it was constructed from; each class is its
  mapping from property identifier to target type descriptor.\<close>

record metadataSchema =
  classes :: "(string \<times> (string \<times> props) list) list"

record featureTableJson =
  ftj_class :: string
  ftj_count :: jsval
  ftj_properties :: "(string \<times> props) list"

record transcode_result =
  tr_featureTableJson :: featureTableJson
  tr_bufferViewsU8 :: "(nat \<times> bufferView) list"
  transcodedSchema :: metadataSchema
  transcodedClass :: "(string \<times> props) list option"

definition initialTranscodeState :: transcode_state where
  "initialTranscodeState =
     \<lparr>classProperties = [], featureTableProperties = [], bufferViewsU8 = [],
      bufferViewCount = 0\<rparr>"

text \<open>\<^verbatim>\<open>transcodeBinaryProperties(featureCount, binaryProperties, binaryBody)\<close>.\<close>

definition transcodeBinaryProperties ::
  "store \<Rightarrow> jsval \<Rightarrow> jsobj \<Rightarrow> jsval \<Rightarrow> error + transcode_result" where
  "transcodeBinaryProperties s featureCount binaryProps binaryBody =
     (case transcodeLoop s featureCount binaryProps binaryBody (forInKeys binaryProps)
             initialTranscodeState of
        Inl e \<Rightarrow> Inl e
      | Inr st \<Rightarrow>
          (let schema = \<lparr>classes = [(''_batchTable'', classProperties st)]\<rparr> in
           Inr \<lparr>tr_featureTableJson =
                  \<lparr>ftj_class = ''_batchTable'', ftj_count = featureCount,
                   ftj_properties = featureTableProperties st\<rparr>,
                tr_bufferViewsU8 = bufferViewsU8 st,
                transcodedSchema = schema,
                transcodedClass = map_of (classes schema) ''_batchTable''\<rparr>))"

section \<open>Transcoding orchestrator\<close>

text \<open>\<^verbatim>\<open>typeof v\<close>.\<close>

fun typeof :: "jsval \<Rightarrow> string" where
  "typeof JUndefined = ''undefined''"
| "typeof JNull = ''object''"
| "typeof (JBool b) = ''boolean''"
| "typeof (JNum n) = ''number''"
| "typeof JNaN = ''number''"
| "typeof (JStr str) = ''string''"
| "typeof (JRef a) = ''object''"

text \<open>Modelled from the spec: the argument checks \<^verbatim>\<open>Check.typeOf.number\<close> and
  \<^verbatim>\<open>Check.typeOf.object\<close> of \<^verbatim>\<open>Core/Check.js\<close> (not among the sources): an
  argument that is missing or of the wrong shape, that is, whose \<^verbatim>\<open>typeof\<close> is not the
  one the check names, fails with the invalid-argument error, here
  \<^const>\<open>DeveloperError\<close>.\<close>

definition checkTypeOf :: "string \<Rightarrow> jsval \<Rightarrow> error + unit" where
  "checkTypeOf ty v = (if typeof v \<noteq> ty then Inl DeveloperError else Inr ())"

record options =
  opt_count :: jsval
  opt_batchTable :: jsval
  opt_binaryBody :: jsval

text \<open>Modelled from the spec: \<^verbatim>\<open>JsonMetadataTable\<close>, \<^verbatim>\<open>FeatureTable\<close> and
  \<^verbatim>\<open>FeatureMetadata\<close> (not among the sources), external containers kept as the
  options they were constructed from.\<close>

record jsonMetadataTable =
  jmt_count :: jsval
  jmt_properties :: jsobj

record featureTable =
  ft_featureTable :: featureTableJson
  ft_class :: "(string \<times> props) list option"
  ft_bufferViews :: "(nat \<times> bufferView) list"
  ft_jsonMetadataTable :: jsonMetadataTable
  ft_batchTableHierarchy :: "batchTableHierarchy option"

record featureMetadata =
  fm_schema :: metadataSchema
  fm_featureTables :: "(string \<times> featureTable) list"
  fm_extensions :: jsval
  fm_extras :: jsval

text \<open>\<^verbatim>\<open>parseBatchTable(options)\<close>: the bundle and the store it leaves.\<close>

definition parseBatchTable :: "store \<Rightarrow> options \<Rightarrow> error + (featureMetadata \<times> store)" where
  "parseBatchTable s opts =
     (case checkTypeOf ''number'' (opt_count opts) of
        Inl e \<Rightarrow> Inl e
      | Inr _ \<Rightarrow>
     (case checkTypeOf ''object'' (opt_batchTable opts) of
        Inl e \<Rightarrow> Inl e
      | Inr _ \<Rightarrow>
     (case checkTypeOf ''object'' (opt_binaryBody opts) of
        Inl e \<Rightarrow> Inl e
      | Inr _ \<Rightarrow>
     (let featureCount = opt_count opts;
          binaryBody = opt_binaryBody opts
      in case (case opt_batchTable opts of
                 JRef batchTable \<Rightarrow> partitionProperties s batchTable
               | _ \<Rightarrow> Inl TypeError) of
           Inl e \<Rightarrow> Inl e
         | Inr (partitionResults, s') \<Rightarrow>
        (let jsonTable = \<lparr>jmt_count = featureCount,
                          jmt_properties = jsonProperties partitionResults\<rparr>
         in case initializeHierarchy s' (extensions partitionResults) binaryBody of
              Inl e \<Rightarrow> Inl e
            | Inr hierarchy \<Rightarrow>
           (case transcodeBinaryProperties s' featureCount
                   (binaryProperties partitionResults) binaryBody of
              Inl e \<Rightarrow> Inl e
            | Inr binaryResults \<Rightarrow>
                Inr (\<lparr>fm_schema = transcodedSchema binaryResults,
                      fm_featureTables =
                        [(''_batchTable'',
                          \<lparr>ft_featureTable = tr_featureTableJson binaryResults,
                           ft_class = transcodedClass binaryResults,
                           ft_bufferViews = tr_bufferViewsU8 binaryResults,
                           ft_jsonMetadataTable = jsonTable,
                           ft_batchTableHierarchy = hierarchy\<rparr>)],
                      fm_extensions = extensions partitionResults,
                      fm_extras = extras partitionResults\<rparr>, s')))))))"

section \<open>Example inputs\<close>

definition plainObject :: "props \<Rightarrow> jsobj" where
  "plainObject ps = \<lparr>own = ps, inherited = [], isArray = False\<rparr>"

definition arrayObject :: "props \<Rightarrow> jsobj" where
  "arrayObject ps = \<lparr>own = ps, inherited = [], isArray = True\<rparr>"

definition binaryProperty :: "string \<Rightarrow> string \<Rightarrow> int \<Rightarrow> jsobj" where
  "binaryProperty ct ty off =
     plainObject [(''componentType'', JStr ct), (''type'', JStr ty), (''byteOffset'', JNum off)]"

definition mkStore :: "jsobj list \<Rightarrow> store" where
  "mkStore obs =
     \<lparr>objs = (\<lambda>a. if a < length obs then obs ! a else emptyObject),
      nextAddr = length obs, warnings = []\<rparr>"

text \<open>
  Address 0 is the batch table of the spec's example scenario (with an \<^verbatim>\<open>extras\<close>
  payload and one inherited enumerable property added), 3 the binary body over the buffer
  4; 5 is a batch table with a legacy \<^verbatim>\<open>HIERARCHY\<close> and no extensions; 8 one with
  both, whose extensions object 9 already has a hierarchy entry.
\<close>

definition exampleStore :: store where
  "exampleStore = mkStore
     [\<lparr>own = [(''height'', JRef 1), (''name'', JRef 2), (''extras'', JRef 4)],
       inherited = [(''custom'', JRef 2)], isArray = False\<rparr>,
      binaryProperty ''FLOAT'' ''SCALAR'' 0,
      arrayObject [(''0'', JStr ''a''), (''1'', JStr ''b'')],
      plainObject [(''buffer'', JRef 4), (''byteOffset'', JNum 16)],
      plainObject [],
      plainObject [(''HIERARCHY'', JRef 6), (''color'', JRef 7)],
      plainObject [(''instancesLength'', JNum 2)],
      binaryProperty ''UNSIGNED_BYTE'' ''VEC3'' 8,
      plainObject [(''HIERARCHY'', JRef 6), (''extensions'', JRef 9), (''height'', JRef 1),
                   (''color'', JRef 7)],
      plainObject [(''other'', JNum 1), (''3DTILES_batch_table_hierarchy'', JRef 10)],
      plainObject [(''instancesLength'', JNum 5)]]"

definition exampleOptions :: options where
  "exampleOptions = \<lparr>opt_count = JNum 2, opt_batchTable = JRef 0, opt_binaryBody = JRef 3\<rparr>"



definition exampleBundle :: featureMetadata where
  "exampleBundle =
     \<lparr>fm_schema = \<lparr>classes = [(''_batchTable'', [(''height'', [(''type'', JStr ''FLOAT32'')])])]\<rparr>,
      fm_featureTables =
        [(''_batchTable'',
          \<lparr>ft_featureTable =
             \<lparr>ftj_class = ''_batchTable'', ftj_count = JNum 2,
              ftj_properties = [(''height'', [(''bufferView'', JNum 0)])]\<rparr>,
           ft_class = Some [(''height'', [(''type'', JStr ''FLOAT32'')])],
           ft_bufferViews =
             [(0, \<lparr>view_accessor =
                     \<lparr>acc_componentType = JStr ''FLOAT'', acc_type = JStr ''SCALAR''\<rparr>,
                   view_buffer = JRef 4, view_byteOffset = JNum 16,
                   view_elementCount = JNum 2\<rparr>)],
           ft_jsonMetadataTable =
             \<lparr>jmt_count = JNum 2, jmt_properties = plainObject [(''name'', JRef 2)]\<rparr>,
           ft_batchTableHierarchy = None\<rparr>)],
      fm_extensions = JUndefined, fm_extras = JRef 4\<rparr>"


definition legacyOptions :: options where
  "legacyOptions = \<lparr>opt_count = JNum 2, opt_batchTable = JRef 5, opt_binaryBody = JRef 3\<rparr>"

section \<open>Auxiliary notions and lemmas\<close>

text \<open>The keys that the partition loop keeps, by whether the value is an array.\<close>

definition kept :: "store \<Rightarrow> jsobj \<Rightarrow> bool \<Rightarrow> string \<Rightarrow> bool" where
  "kept s bt arr k \<longleftrightarrow>
     hasOwnProperty bt k \<and> k \<noteq> ''HIERARCHY'' \<and> k \<noteq> ''extensions'' \<and> k \<noteq> ''extras'' \<and>
     isArrayVal s (lookupProp bt k) = arr"


text \<open>A value that is not a reference to an address beyond the allocated ones.\<close>

fun allocated :: "store \<Rightarrow> jsval \<Rightarrow> bool" where
  "allocated s (JRef a) = (a < nextAddr s)"
| "allocated s _ = True"

lemma map_of_replace:
  "map_of (map (\<lambda>(k', v'). if k' = k then (k', v) else (k', v')) ps) x =
     (if x = k then (if k \<in> set (map fst ps) then Some v else None) else map_of ps x)"
  by (induction ps) (force split: prod.splits)+

lemma map_of_assign: "map_of (assign ps k v) = (map_of ps)(k \<mapsto> v)"
proof (cases "k \<in> set (map fst ps)")
  case True
  then show ?thesis by (auto simp: assign_def map_of_replace fun_eq_iff)
next
  case False
  then have "map_of ps k = None" by (simp add: map_of_eq_None_iff)
  with False show ?thesis
    by (auto simp: assign_def fun_eq_iff map_add_def split: option.splits)
qed


lemma partitionLoop_own:
  "partitionLoop s bt ks (j, b) = (j', b') \<Longrightarrow>
     map_of (own j') = (\<lambda>k. if k \<in> set ks \<and> kept s bt True k then Some (lookupProp bt k)
                            else map_of (own j) k) \<and>
     map_of (own b') = (\<lambda>k. if k \<in> set ks \<and> kept s bt False k then Some (lookupProp bt k)
                            else map_of (own b) k) \<and>
     inherited j' = inherited j \<and> inherited b' = inherited b"
proof (induction ks arbitrary: j b)
  case Nil
  then show ?case by simp
next
  case (Cons k ks)
  show ?case
  proof (cases "kept s bt True k")
    case True
    with Cons.prems have "partitionLoop s bt ks (setOwn j k (lookupProp bt k), b) = (j', b')"
      by (simp add: kept_def)
    from Cons.IH [OF this] True show ?thesis
      by (auto simp: fun_eq_iff setOwn_def map_of_assign kept_def)
  next
    case notArr: False
    show ?thesis
    proof (cases "kept s bt False k")
      case True
      with Cons.prems have "partitionLoop s bt ks (j, setOwn b k (lookupProp bt k)) = (j', b')"
        by (simp add: kept_def)
      from Cons.IH [OF this] True show ?thesis
        by (auto simp: fun_eq_iff setOwn_def map_of_assign kept_def)
    next
      case False
      with notArr Cons.prems have "partitionLoop s bt ks (j, b) = (j', b')"
        by (auto simp: kept_def Let_def split: if_splits)
      from Cons.IH [OF this] False notArr show ?thesis
        by (auto simp: fun_eq_iff)
    qed
  qed
qed

lemma own_in_forInKeys: "hasOwnProperty ob k \<Longrightarrow> k \<in> set (forInKeys ob)"
  by (simp add: hasOwnProperty_def forInKeys_def ownKeys_def)

lemma keys_iff_map_of: "k \<in> set (map fst ps) \<longleftrightarrow> map_of ps k \<noteq> None"
  by (simp add: map_of_eq_None_iff)

lemma partitionLoop_empty:
  assumes "partitionLoop s bt (forInKeys bt) (emptyObject, emptyObject) = (j, b)"
  shows "(k \<in> set (map fst (own j)) \<longleftrightarrow> kept s bt True k) \<and>
         (k \<in> set (map fst (own b)) \<longleftrightarrow> kept s bt False k) \<and>
         (kept s bt True k \<longrightarrow> lookupProp j k = lookupProp bt k) \<and>
         (kept s bt False k \<longrightarrow> lookupProp b k = lookupProp bt k) \<and>
         inherited j = [] \<and> inherited b = []"
proof -
  have j: "map_of (own j) = (\<lambda>k. if k \<in> set (forInKeys bt) \<and> kept s bt True k
                                    then Some (lookupProp bt k) else None)"
    and b: "map_of (own b) = (\<lambda>k. if k \<in> set (forInKeys bt) \<and> kept s bt False k
                                    then Some (lookupProp bt k) else None)"
    and i: "inherited j = []" "inherited b = []"
    using partitionLoop_own [OF assms] by (auto simp: emptyObject_def)
  have mem: "kept s bt arr k \<Longrightarrow> k \<in> set (forInKeys bt)" for arr
    by (simp add: kept_def own_in_forInKeys)
  have kj: "k \<in> set (map fst (own j)) \<longleftrightarrow> kept s bt True k"
    unfolding keys_iff_map_of j using mem [of True] by auto
  have kb: "k \<in> set (map fst (own b)) \<longleftrightarrow> kept s bt False k"
    unfolding keys_iff_map_of b using mem [of False] by auto
  have vj: "kept s bt True k \<longrightarrow> lookupProp j k = lookupProp bt k"
    unfolding lookupProp_def [of j] j using mem [of True] by auto
  have vb: "kept s bt False k \<longrightarrow> lookupProp b k = lookupProp bt k"
    unfolding lookupProp_def [of b] b using mem [of False] by auto
  from kj kb vj vb i show ?thesis by blast
qed

lemma foldLegacyHierarchy_cases:
  assumes "foldLegacyHierarchy s legacy exts = Inr (exts', s')"
  shows "(\<not> defined legacy \<and> exts' = exts \<and> s' = s) \<or>
         (defined legacy \<and> (\<exists>e. exts' = JRef e \<and>
            (if defined exts then exts = JRef e else e = nextAddr s) \<and>
            objs s' = (objs s)(e := setOwn (if defined exts then objs s e else emptyObject) hierarchyKey legacy) \<and>
            nextAddr s' = (if defined exts then nextAddr s else Suc (nextAddr s)) \<and>
            warnings s' = warnings s @ [(''batchTableHierarchyExtension'', hierarchyMessage)]))"
proof (cases "defined legacy")
  case False
  with assms show ?thesis by (simp add: foldLegacyHierarchy_def)
next
  case True
  show ?thesis
  proof (cases "defined exts")
    case False
    with True assms show ?thesis
      by (auto simp: foldLegacyHierarchy_def newObject_def deprecationWarning_def)
  next
    case dexts: True
    with True assms obtain e where "exts = JRef e"
      by (cases exts) (auto simp: foldLegacyHierarchy_def)
    with True dexts assms show ?thesis
      by (auto simp: foldLegacyHierarchy_def deprecationWarning_def)
  qed
qed


lemma partitionProperties_Inr:
  assumes "partitionProperties s batchTable = Inr (r, s')"
  shows "\<exists>exts'. foldLegacyHierarchy s (lookupProp (objs s batchTable) ''HIERARCHY'')
                    (lookupProp (objs s batchTable) ''extensions'') = Inr (exts', s') \<and>
           partitionLoop s' (objs s' batchTable) (forInKeys (objs s' batchTable))
             (emptyObject, emptyObject) = (jsonProperties r, binaryProperties r) \<and>
           extensions r = exts' \<and> extras r = lookupProp (objs s batchTable) ''extras''"
proof (cases "foldLegacyHierarchy s (lookupProp (objs s batchTable) ''HIERARCHY'')
                    (lookupProp (objs s batchTable) ''extensions'')")
  case (Inl e)
  with assms show ?thesis by (simp add: partitionProperties_def)
next
  case (Inr p)
  obtain exts' t where p: "p = (exts', t)" by (cases p)
  obtain j b where l: "partitionLoop t (objs t batchTable) (forInKeys (objs t batchTable))
             (emptyObject, emptyObject) = (j, b)"
    by (cases "partitionLoop t (objs t batchTable) (forInKeys (objs t batchTable))
             (emptyObject, emptyObject)")
  from assms Inr p l show ?thesis by (auto simp: partitionProperties_def)
qed











lemmas example_simps =
  exampleStore_def mkStore_def plainObject_def arrayObject_def binaryProperty_def
  emptyObject_def lookupProp_def hasOwnProperty_def forInKeys_def ownKeys_def setOwn_def
  assign_def

lemma lookupProp_setOwn:
  "lookupProp (setOwn ob k v) k' = (if k' = k then v else lookupProp ob k')"
  by (simp add: lookupProp_def setOwn_def map_of_assign split: option.splits)



lemma partitionProperties_fold:
  assumes "foldLegacyHierarchy s (lookupProp (objs s bt) ''HIERARCHY'')
             (lookupProp (objs s bt) ''extensions'') = Inr (exts', s')"
  shows "\<exists>r. partitionProperties s bt = Inr (r, s') \<and> extensions r = exts' \<and>
             extras r = lookupProp (objs s bt) ''extras''"
  using assms by (simp add: partitionProperties_def Let_def split: prod.splits)

lemma foldLegacyHierarchy_object:
  assumes "defined legacy" and "exts = JRef e"
  shows "foldLegacyHierarchy s legacy exts =
           Inr (JRef e, s\<lparr>objs := (objs s)(e := setOwn (objs s e) hierarchyKey legacy),
                          warnings := warnings s @ [(''batchTableHierarchyExtension'', hierarchyMessage)]\<rparr>)"
  using assms by (simp add: foldLegacyHierarchy_def deprecationWarning_def)

lemma foldLegacyHierarchy_absent:
  assumes "defined legacy" and "\<not> defined exts"
  shows "foldLegacyHierarchy s legacy exts =
           Inr (JRef (nextAddr s),
                s\<lparr>objs := (objs s)(nextAddr s := setOwn emptyObject hierarchyKey legacy),
                  nextAddr := Suc (nextAddr s),
                  warnings := warnings s @ [(''batchTableHierarchyExtension'', hierarchyMessage)]\<rparr>)"
  using assms by (simp add: foldLegacyHierarchy_def deprecationWarning_def newObject_def)

lemma parseBatchTable_Inr:
  assumes "parseBatchTable s opts = Inr (bundle, s')"
  shows "\<exists>batchTable r hierarchy tr.
           typeof (opt_count opts) = ''number'' \<and>
           typeof (opt_binaryBody opts) = ''object'' \<and>
           opt_batchTable opts = JRef batchTable \<and>
           partitionProperties s batchTable = Inr (r, s') \<and>
           initializeHierarchy s' (extensions r) (opt_binaryBody opts) = Inr hierarchy \<and>
           transcodeBinaryProperties s' (opt_count opts) (binaryProperties r) (opt_binaryBody opts)
             = Inr tr \<and>
           bundle =
             \<lparr>fm_schema = transcodedSchema tr,
              fm_featureTables =
                [(''_batchTable'',
                  \<lparr>ft_featureTable = tr_featureTableJson tr,
                   ft_class = transcodedClass tr,
                   ft_bufferViews = tr_bufferViewsU8 tr,
                   ft_jsonMetadataTable =
                     \<lparr>jmt_count = opt_count opts, jmt_properties = jsonProperties r\<rparr>,
                   ft_batchTableHierarchy = hierarchy\<rparr>)],
              fm_extensions = extensions r, fm_extras = extras r\<rparr>"
  using assms
  by (cases "opt_batchTable opts")
     (auto simp: parseBatchTable_def checkTypeOf_def Let_def split: if_splits sum.splits)

lemmas eval_simps =
  partitionProperties_def foldLegacyHierarchy_def deprecationWarning_def newObject_def
  hierarchyKey_def initializeHierarchy_def transcodeBinaryProperties_def transcodeStep_def
  getBinaryAccessor_def createPropertyView_def transcodePropertyType_def transcodeComponentType_def jsAdd_def
  createArrayBufferView_def initialTranscodeState_def charAt3_def digitValue_def
  parseBatchTable_def checkTypeOf_def Let_def

lemma partitionProperties_no_legacy:
  assumes "\<not> defined (lookupProp (objs s bt) ''HIERARCHY'')"
    and "partitionProperties s bt = Inr (r, s')"
  shows "s' = s \<and> extensions r = lookupProp (objs s bt) ''extensions''"
proof -
  have "foldLegacyHierarchy s (lookupProp (objs s bt) ''HIERARCHY'')
          (lookupProp (objs s bt) ''extensions'') = Inr (lookupProp (objs s bt) ''extensions'', s)"
    using assms(1) by (simp add: foldLegacyHierarchy_def)
  from partitionProperties_fold [OF this] assms(2) show ?thesis by auto
qed

lemma partitionLoop_cong:
  assumes "\<forall>k \<in> set ks. hasOwnProperty bt k \<longrightarrow>
             isArrayVal t (lookupProp bt k) = isArrayVal s (lookupProp bt k)"
  shows "partitionLoop t bt ks (j, b) = partitionLoop s bt ks (j, b)"
  using assms by (induction ks arbitrary: j b) (auto simp: Let_def)

lemma getBinaryAccessor_cong:
  "\<forall>k. getProp t p k = getProp s p k \<Longrightarrow> getBinaryAccessor t p = getBinaryAccessor s p"
  by (simp add: getBinaryAccessor_def cong: sum.case_cong)

lemma transcodePropertyType_cong:
  "\<forall>k. getProp t p k = getProp s p k \<Longrightarrow> transcodePropertyType t p = transcodePropertyType s p"
  by (simp add: transcodePropertyType_def Let_def cong: sum.case_cong)

lemma createPropertyView_cong:
  "\<forall>k. getProp t p k = getProp s p k \<Longrightarrow> \<forall>k. getProp t bb k = getProp s bb k \<Longrightarrow>
     createPropertyView t fc bb p acc = createPropertyView s fc bb p acc"
  by (simp add: createPropertyView_def cong: sum.case_cong)

lemma transcodeStep_cong:
  assumes "hasOwnProperty bp k \<longrightarrow> (\<forall>x. getProp t (lookupProp bp k) x = getProp s (lookupProp bp k) x)"
    and "\<forall>x. getProp t bb x = getProp s bb x"
  shows "transcodeStep t fc bp bb k st = transcodeStep s fc bp bb k st"
proof (cases "hasOwnProperty bp k")
  case True
  with assms(1) have p: "\<forall>x. getProp t (lookupProp bp k) x = getProp s (lookupProp bp k) x"
    by simp
  show ?thesis
    by (simp add: transcodeStep_def Let_def getBinaryAccessor_cong [OF p]
        transcodePropertyType_cong [OF p] createPropertyView_cong [OF p assms(2)]
        cong: sum.case_cong)
next
  case False
  then show ?thesis by (simp add: transcodeStep_def)
qed

lemma transcodeLoop_cong:
  assumes "\<forall>k \<in> set ks. hasOwnProperty bp k \<longrightarrow>
             (\<forall>x. getProp t (lookupProp bp k) x = getProp s (lookupProp bp k) x)"
    and "\<forall>x. getProp t bb x = getProp s bb x"
  shows "transcodeLoop t fc bp bb ks st = transcodeLoop s fc bp bb ks st"
  using assms(1)
proof (induction ks arbitrary: st)
  case Nil
  show ?case by simp
next
  case (Cons k ks)
  have "transcodeStep t fc bp bb k st = transcodeStep s fc bp bb k st"
    using Cons.prems assms(2) by (intro transcodeStep_cong) simp_all
  moreover have "transcodeLoop t fc bp bb ks st' = transcodeLoop s fc bp bb ks st'" for st'
    using Cons.prems by (intro Cons.IH) simp
  ultimately show ?case by (simp cong: sum.case_cong)
qed

lemma transcodeBinaryProperties_cong:
  assumes "\<forall>k. hasOwnProperty bp k \<longrightarrow>
             (\<forall>x. getProp t (lookupProp bp k) x = getProp s (lookupProp bp k) x)"
    and "\<forall>x. getProp t bb x = getProp s bb x"
  shows "transcodeBinaryProperties t fc bp bb = transcodeBinaryProperties s fc bp bb"
proof -
  have "transcodeLoop t fc bp bb (forInKeys bp) initialTranscodeState =
        transcodeLoop s fc bp bb (forInKeys bp) initialTranscodeState"
    using assms by (intro transcodeLoop_cong) simp_all
  then show ?thesis by (simp add: transcodeBinaryProperties_def)
qed

lemma initializeHierarchy_cong:
  assumes "defined e2 = defined e1"
    and "getProp t e2 hierarchyKey = getProp s e1 hierarchyKey"
  shows "initializeHierarchy t e2 bb = initializeHierarchy s e1 bb"
  using assms by (simp add: initializeHierarchy_def)

lemma lookupProp_own_mem:
  "hasOwnProperty ob k \<Longrightarrow> lookupProp ob k \<in> snd ` set (own ob)"
proof -
  assume "hasOwnProperty ob k"
  then obtain v where "map_of (own ob) k = Some v"
    by (auto simp: hasOwnProperty_def keys_iff_map_of simp del: set_map)
  then show ?thesis
    by (auto simp: lookupProp_def dest: map_of_SomeD intro: rev_image_eqI)
qed

lemma setOwn_idem: "setOwn (setOwn ob k v) k v = setOwn ob k v"
proof -
  have "assign (assign ps k v) k v = assign ps k v" for ps :: props
  proof (cases "k \<in> set (map fst ps)")
    case True
    have "map fst (map (\<lambda>(k', v'). if k' = k then (k', v) else (k', v')) ps) = map fst ps"
      by (induction ps) auto
    with True show ?thesis
      by (auto simp: assign_def split: prod.splits)
  next
    case False
    have "k \<notin> set (map fst qs) \<Longrightarrow>
          map (\<lambda>(k', v'). if k' = k then (k', v) else (k', v')) qs = qs" for qs :: props
      by (induction qs) auto
    with False show ?thesis by (simp add: assign_def)
  qed
  then show ?thesis by (simp add: setOwn_def)
qed

lemma getProp_objs: "objs t = objs s \<Longrightarrow> getProp t v k = getProp s v k"
  by (cases v) auto

lemma isArrayVal_objs: "objs t = objs s \<Longrightarrow> isArrayVal t v = isArrayVal s v"
  by (cases v) auto

lemma getProp_agree:
  "allocated s v \<Longrightarrow> \<forall>a < nextAddr s. objs t a = objs s' a \<Longrightarrow> getProp t v k = getProp s' v k"
  by (cases v) auto

lemma isArrayVal_agree:
  "allocated s v \<Longrightarrow> \<forall>a < nextAddr s. objs t a = objs s' a \<Longrightarrow> isArrayVal t v = isArrayVal s' v"
  by (cases v) auto

lemma foldLegacyHierarchy_rerun:
  assumes f: "foldLegacyHierarchy s (lookupProp (objs s bt) ''HIERARCHY'')
                (lookupProp (objs s bt) ''extensions'') = Inr (e1, s1)"
    and bt: "bt < nextAddr s"
    and vals: "\<forall>v \<in> snd ` set (own (objs s bt)). allocated s v"
    and bb: "allocated s bb"
  shows "\<exists>e2 s2.
           foldLegacyHierarchy s1 (lookupProp (objs s1 bt) ''HIERARCHY'')
                (lookupProp (objs s1 bt) ''extensions'') = Inr (e2, s2) \<and>
           lookupProp (objs s1 bt) ''extras'' = lookupProp (objs s bt) ''extras'' \<and>
           objs s2 bt = objs s1 bt \<and>
           (\<forall>v \<in> insert bb (snd ` set (own (objs s1 bt))).
              (\<forall>k. getProp s2 v k = getProp s1 v k) \<and> isArrayVal s2 v = isArrayVal s1 v) \<and>
           defined e2 = defined e1 \<and>
           getProp s2 e2 hierarchyKey = getProp s1 e1 hierarchyKey"
proof -
  let ?L = "lookupProp (objs s bt) ''HIERARCHY''"
  let ?E = "lookupProp (objs s bt) ''extensions''"
  note cases = foldLegacyHierarchy_cases [OF f]
  show ?thesis
  proof (cases "defined ?L")
    case False
    with cases have "e1 = ?E" "s1 = s" by auto
    with f show ?thesis by auto
  next
    case L: True
    with cases obtain e where e1: "e1 = JRef e"
      and e: "if defined ?E then ?E = JRef e else e = nextAddr s"
      and o1: "objs s1 = (objs s)(e := setOwn (if defined ?E then objs s e else emptyObject)
                  hierarchyKey ?L)"
      and n1: "nextAddr s1 = (if defined ?E then nextAddr s else Suc (nextAddr s))"
      by auto
    show ?thesis
    proof (cases "defined ?E")
      case E: True
      with e have Ee: "?E = JRef e" by simp
      from E o1 have o1': "objs s1 = (objs s)(e := setOwn (objs s e) hierarchyKey ?L)" by simp
      have same: "lookupProp (objs s1 bt) k = lookupProp (objs s bt) k" if "k \<noteq> hierarchyKey" for k
        using that by (simp add: o1' lookupProp_setOwn)
      have l: "lookupProp (objs s1 bt) ''HIERARCHY'' = ?L"
        "lookupProp (objs s1 bt) ''extensions'' = JRef e"
        "lookupProp (objs s1 bt) ''extras'' = lookupProp (objs s bt) ''extras''"
        using Ee by (simp_all add: same hierarchyKey_def)
      let ?s2 = "s1\<lparr>objs := (objs s1)(e := setOwn (objs s1 e) hierarchyKey ?L),
                     warnings := warnings s1 @ [(''batchTableHierarchyExtension'', hierarchyMessage)]\<rparr>"
      have f2: "foldLegacyHierarchy s1 (lookupProp (objs s1 bt) ''HIERARCHY'')
                (lookupProp (objs s1 bt) ''extensions'') = Inr (JRef e, ?s2)"
        unfolding l using L by (intro foldLegacyHierarchy_object) simp_all
      have o2: "objs ?s2 = objs s1"
        by (simp add: o1' setOwn_idem)
      have "(\<forall>k. getProp ?s2 v k = getProp s1 v k) \<and> isArrayVal ?s2 v = isArrayVal s1 v" for v
        using getProp_objs [OF o2] isArrayVal_objs [OF o2] by blast
      with f2 l(3) o2 e1 show ?thesis
        by (intro exI [of _ "JRef e"] exI [of _ ?s2]) (simp add: getProp_objs [OF o2])
    next
      case E: False
      with e n1 o1 have en: "e = nextAddr s" and n1': "nextAddr s1 = Suc (nextAddr s)"
        and o1': "objs s1 = (objs s)(nextAddr s := setOwn emptyObject hierarchyKey ?L)"
        by simp_all
      from bt have o1bt: "objs s1 bt = objs s bt" by (simp add: o1')
      let ?s2 = "s1\<lparr>objs := (objs s1)(nextAddr s1 := setOwn emptyObject hierarchyKey ?L),
                     nextAddr := Suc (nextAddr s1),
                     warnings := warnings s1 @ [(''batchTableHierarchyExtension'', hierarchyMessage)]\<rparr>"
      have f2: "foldLegacyHierarchy s1 (lookupProp (objs s1 bt) ''HIERARCHY'')
                (lookupProp (objs s1 bt) ''extensions'') = Inr (JRef (nextAddr s1), ?s2)"
        unfolding o1bt using L E by (intro foldLegacyHierarchy_absent) simp_all
      have agree: "\<forall>a < nextAddr s. objs ?s2 a = objs s1 a"
        by (simp add: n1')
      have o2bt: "objs ?s2 bt = objs s1 bt"
        using bt agree by blast
      have ag: "(\<forall>k. getProp ?s2 v k = getProp s1 v k) \<and> isArrayVal ?s2 v = isArrayVal s1 v"
        if "allocated s v" for v
        using getProp_agree [OF that agree] isArrayVal_agree [OF that agree] by blast
      have all: "\<forall>v \<in> insert bb (snd ` set (own (objs s1 bt))).
              (\<forall>k. getProp ?s2 v k = getProp s1 v k) \<and> isArrayVal ?s2 v = isArrayVal s1 v"
        using ag vals bb unfolding o1bt by blast
      have h: "getProp ?s2 (JRef (nextAddr s1)) hierarchyKey = getProp s1 e1 hierarchyKey"
        by (simp add: e1 en o1' lookupProp_setOwn)
      from f2 o1bt o2bt all h e1 show ?thesis
        by (intro exI [of _ "JRef (nextAddr s1)"] exI [of _ ?s2]) simp
    qed
  qed
qed

lemma partitionProperties_rerun:
  assumes pp: "partitionProperties s bt = Inr (r, s1)"
    and bt: "bt < nextAddr s"
    and vals: "\<forall>v \<in> snd ` set (own (objs s bt)). allocated s v"
    and bb: "allocated s bb"
  shows "\<exists>r2 s2.
           partitionProperties s1 bt = Inr (r2, s2) \<and>
           extras r2 = extras r \<and>
           jsonProperties r2 = jsonProperties r \<and>
           binaryProperties r2 = binaryProperties r \<and>
           initializeHierarchy s2 (extensions r2) bb = initializeHierarchy s1 (extensions r) bb \<and>
           transcodeBinaryProperties s2 fc (binaryProperties r) bb =
             transcodeBinaryProperties s1 fc (binaryProperties r) bb"
proof -
  let ?bt = "objs s1 bt"
  from partitionProperties_Inr [OF pp] obtain e1 where
    f1: "foldLegacyHierarchy s (lookupProp (objs s bt) ''HIERARCHY'')
           (lookupProp (objs s bt) ''extensions'') = Inr (e1, s1)"
    and l1: "partitionLoop s1 ?bt (forInKeys ?bt) (emptyObject, emptyObject) =
               (jsonProperties r, binaryProperties r)"
    and x1: "extensions r = e1" "extras r = lookupProp (objs s bt) ''extras''"
    by blast
  from foldLegacyHierarchy_rerun [OF f1 bt vals bb] obtain e2 s2 where
    f2: "foldLegacyHierarchy s1 (lookupProp ?bt ''HIERARCHY'') (lookupProp ?bt ''extensions'')
           = Inr (e2, s2)"
    and ex: "lookupProp ?bt ''extras'' = lookupProp (objs s bt) ''extras''"
    and o2: "objs s2 bt = ?bt"
    and ag: "\<forall>v \<in> insert bb (snd ` set (own ?bt)).
              (\<forall>k. getProp s2 v k = getProp s1 v k) \<and> isArrayVal s2 v = isArrayVal s1 v"
    and d: "defined e2 = defined e1"
    and h: "getProp s2 e2 hierarchyKey = getProp s1 e1 hierarchyKey"
    by blast
  have own: "hasOwnProperty ?bt k \<Longrightarrow> lookupProp ?bt k \<in> insert bb (snd ` set (own ?bt))" for k
    using lookupProp_own_mem by blast
  have "partitionLoop s2 ?bt (forInKeys ?bt) (emptyObject, emptyObject) =
        partitionLoop s1 ?bt (forInKeys ?bt) (emptyObject, emptyObject)"
    using ag own by (intro partitionLoop_cong) blast
  with l1 have l2: "partitionLoop s2 (objs s2 bt) (forInKeys (objs s2 bt))
       (emptyObject, emptyObject) = (jsonProperties r, binaryProperties r)"
    by (simp add: o2)
  let ?r2 = "\<lparr>binaryProperties = binaryProperties r, jsonProperties = jsonProperties r,
              extras = lookupProp ?bt ''extras'', extensions = e2\<rparr>"
  have p2: "partitionProperties s1 bt = Inr (?r2, s2)"
    using f2 l2 by (simp add: partitionProperties_def)
  have ih: "initializeHierarchy s2 e2 bb = initializeHierarchy s1 e1 bb"
    using d h by (rule initializeHierarchy_cong)
  have binvals: "\<forall>x. getProp s2 (lookupProp (binaryProperties r) k) x =
                     getProp s1 (lookupProp (binaryProperties r) k) x"
    if k: "hasOwnProperty (binaryProperties r) k" for k
  proof -
    from partitionLoop_empty [OF l1, of k] k
    have kk: "kept s1 ?bt False k" and lk: "lookupProp (binaryProperties r) k = lookupProp ?bt k"
      by (simp_all add: hasOwnProperty_def)
    from kk have "hasOwnProperty ?bt k" by (simp add: kept_def)
    from own [OF this] ag show ?thesis unfolding lk by blast
  qed
  have tb: "transcodeBinaryProperties s2 fc (binaryProperties r) bb =
             transcodeBinaryProperties s1 fc (binaryProperties r) bb"
    using binvals ag by (intro transcodeBinaryProperties_cong) simp_all
  from p2 ex x1 ih tb show ?thesis
    by (intro exI [of _ ?r2] exI [of _ s2]) simp
qed

section \<open>Properties of the type mapper\<close>



text \<open>
  C4. For a property whose legacy type is SCALAR, \<^verbatim>\<open>transcodePropertyType\<close> returns
  the object with the single field \<^verbatim>\<open>type\<close>, the mapped component type (so there is no
  \<^verbatim>\<open>componentCount\<close>); for VEC2, VEC3 and VEC4 it returns \<^verbatim>\<open>type\<close> ARRAY, the mapped
  component type, and the component count 2, 3 and 4.
\<close>

theorem transcodePropertyType_descriptor:
  assumes "getProp s property ''componentType'' = Inr ct"
  shows "(getProp s property ''type'' = Inr (JStr ''SCALAR'') \<longrightarrow>
            transcodePropertyType s property = Inr [(''type'', transcodeComponentType ct)]) \<and>
         (getProp s property ''type'' = Inr (JStr ''VEC2'') \<longrightarrow>
            transcodePropertyType s property =
              Inr [(''type'', JStr ''ARRAY''), (''componentType'', transcodeComponentType ct),
                   (''componentCount'', JNum 2)]) \<and>
         (getProp s property ''type'' = Inr (JStr ''VEC3'') \<longrightarrow>
            transcodePropertyType s property =
              Inr [(''type'', JStr ''ARRAY''), (''componentType'', transcodeComponentType ct),
                   (''componentCount'', JNum 3)]) \<and>
         (getProp s property ''type'' = Inr (JStr ''VEC4'') \<longrightarrow>
            transcodePropertyType s property =
              Inr [(''type'', JStr ''ARRAY''), (''componentType'', transcodeComponentType ct),
                   (''componentCount'', JNum 4)])"
  using assms by (simp add: transcodePropertyType_def charAt3_def digitValue_def)

theorem transcodePropertyType_descriptor_witness:
  "transcodePropertyType exampleStore (JRef 1) = Inr [(''type'', JStr ''FLOAT32'')] \<and>
   transcodePropertyType exampleStore (JRef 7) =
     Inr [(''type'', JStr ''ARRAY''), (''componentType'', JStr ''UINT8''),
          (''componentCount'', JNum 3)] \<and>
   transcodePropertyType (mkStore [binaryProperty ''SHORT'' ''VEC2'' 0]) (JRef 0) =
     Inr [(''type'', JStr ''ARRAY''), (''componentType'', JStr ''INT16''),
          (''componentCount'', JNum 2)] \<and>
   transcodePropertyType (mkStore [binaryProperty ''DOUBLE'' ''VEC4'' 0]) (JRef 0) =
     Inr [(''type'', JStr ''ARRAY''), (''componentType'', JStr ''FLOAT64''),
          (''componentCount'', JNum 4)]"
proof -
  have a: "getProp exampleStore (JRef 1) ''componentType'' = Inr (JStr ''FLOAT'')"
    and b: "getProp exampleStore (JRef 7) ''componentType'' = Inr (JStr ''UNSIGNED_BYTE'')"
    and c: "getProp (mkStore [binaryProperty ''SHORT'' ''VEC2'' 0]) (JRef 0) ''componentType''
              = Inr (JStr ''SHORT'')"
    and d: "getProp (mkStore [binaryProperty ''DOUBLE'' ''VEC4'' 0]) (JRef 0) ''componentType''
              = Inr (JStr ''DOUBLE'')"
    by (simp_all add: example_simps)
  show ?thesis
    using transcodePropertyType_descriptor [OF a] transcodePropertyType_descriptor [OF b]
      transcodePropertyType_descriptor [OF c] transcodePropertyType_descriptor [OF d]
    by (simp add: example_simps transcodeComponentType_def)
qed

section \<open>Properties of the partitioner\<close>







section \<open>Properties of the binary transcoder\<close>





section \<open>Properties of the hierarchy initializer\<close>

text \<open>
  C7. \<^verbatim>\<open>initializeHierarchy\<close> returns \<^verbatim>\<open>undefined\<close>, and no error, when the
  extensions are absent (not \<^verbatim>\<open>defined\<close>) and when they have no value under
  \<^verbatim>\<open>3DTILES_batch_table_hierarchy\<close> (the lookup gives \<^verbatim>\<open>undefined\<close> or
  \<^verbatim>\<open>null\<close>); otherwise it constructs the hierarchy from that value and the binary
  body. Consequently, when \<^verbatim>\<open>parseBatchTable\<close> returns for a batch table with neither
  a legacy \<^verbatim>\<open>HIERARCHY\<close> value nor the extension, the feature table of the bundle has
  no hierarchy.
\<close>

theorem initializeHierarchy_absent_or_constructed:
  "(\<not> defined exts \<longrightarrow> initializeHierarchy s exts binaryBody = Inr None) \<and>
   (defined exts \<and> getProp s exts ''3DTILES_batch_table_hierarchy'' = Inr h \<and> \<not> defined h \<longrightarrow>
      initializeHierarchy s exts binaryBody = Inr None) \<and>
   (defined exts \<and> getProp s exts ''3DTILES_batch_table_hierarchy'' = Inr h \<and> defined h \<longrightarrow>
      initializeHierarchy s exts binaryBody =
        Inr (Some \<lparr>bth_extension = h, bth_binaryBody = binaryBody\<rparr>)) \<and>
   (parseBatchTable t opts = Inr (metadata, t') \<and> opt_batchTable opts = JRef batchTable \<and>
    \<not> defined (lookupProp (objs t batchTable) ''HIERARCHY'') \<and>
    (\<not> defined (lookupProp (objs t batchTable) ''extensions'') \<or>
     (\<exists>h'. getProp t (lookupProp (objs t batchTable) ''extensions'')
              ''3DTILES_batch_table_hierarchy'' = Inr h' \<and> \<not> defined h')) \<longrightarrow>
      map (\<lambda>(name, table). ft_batchTableHierarchy table) (fm_featureTables metadata) = [None])"
proof -
  have init: "(\<not> defined e \<longrightarrow> initializeHierarchy u e b = Inr None) \<and>
     (defined e \<and> getProp u e ''3DTILES_batch_table_hierarchy'' = Inr x \<and> \<not> defined x \<longrightarrow>
        initializeHierarchy u e b = Inr None) \<and>
     (defined e \<and> getProp u e ''3DTILES_batch_table_hierarchy'' = Inr x \<and> defined x \<longrightarrow>
        initializeHierarchy u e b = Inr (Some \<lparr>bth_extension = x, bth_binaryBody = b\<rparr>))"
    for u e b x
    by (simp add: initializeHierarchy_def hierarchyKey_def)
  have "map (\<lambda>(name, table). ft_batchTableHierarchy table) (fm_featureTables metadata) = [None]"
    if p: "parseBatchTable t opts = Inr (metadata, t')" and bt: "opt_batchTable opts = JRef batchTable"
      and nl: "\<not> defined (lookupProp (objs t batchTable) ''HIERARCHY'')"
      and ne: "\<not> defined (lookupProp (objs t batchTable) ''extensions'') \<or>
     (\<exists>h'. getProp t (lookupProp (objs t batchTable) ''extensions'')
              ''3DTILES_batch_table_hierarchy'' = Inr h' \<and> \<not> defined h')"
  proof -
    from parseBatchTable_Inr [OF p] bt obtain r hierarchy tr where
      pp: "partitionProperties t batchTable = Inr (r, t')"
      and ih: "initializeHierarchy t' (extensions r) (opt_binaryBody opts) = Inr hierarchy"
      and b: "map (\<lambda>(name, table). ft_batchTableHierarchy table) (fm_featureTables metadata) = [hierarchy]"
      by auto
    from partitionProperties_no_legacy [OF nl pp]
    have "t' = t" "extensions r = lookupProp (objs t batchTable) ''extensions''" by simp_all
    with ih ne init have "hierarchy = None" by (metis sum.inject(2))
    with b show ?thesis by simp
  qed
  with init show ?thesis by blast
qed

theorem initializeHierarchy_absent_or_constructed_witness:
  "parseBatchTable exampleStore exampleOptions = Inr (exampleBundle, exampleStore) \<and>
   lookupProp (objs exampleStore 0) ''HIERARCHY'' = JUndefined \<and>
   lookupProp (objs exampleStore 0) ''extensions'' = JUndefined \<and>
   map (\<lambda>(name, table). ft_batchTableHierarchy table) (fm_featureTables exampleBundle) = [None] \<and>
   initializeHierarchy exampleStore JUndefined (JRef 3) = Inr None \<and>
   initializeHierarchy exampleStore (JRef 6) (JRef 3) = Inr None \<and>
   initializeHierarchy exampleStore (JRef 9) (JRef 3) =
     Inr (Some \<lparr>bth_extension = JRef 10, bth_binaryBody = JRef 3\<rparr>)"
proof -
  have p: "parseBatchTable exampleStore exampleOptions = Inr (exampleBundle, exampleStore)"
    by (simp add: eval_simps example_simps exampleOptions_def exampleBundle_def)
  have b: "opt_batchTable exampleOptions = JRef 0" by (simp add: exampleOptions_def)
  have l: "lookupProp (objs exampleStore 0) ''HIERARCHY'' = JUndefined"
    "lookupProp (objs exampleStore 0) ''extensions'' = JUndefined"
    by (simp_all add: example_simps)
  have g: "getProp exampleStore (JRef 6) ''3DTILES_batch_table_hierarchy'' = Inr JUndefined"
    "getProp exampleStore (JRef 9) ''3DTILES_batch_table_hierarchy'' = Inr (JRef 10)"
    by (simp_all add: example_simps)
  note T = initializeHierarchy_absent_or_constructed
  from T [where exts = JUndefined and s = exampleStore and binaryBody = "JRef 3"
            and t = exampleStore and opts = exampleOptions and metadata = exampleBundle
            and t' = exampleStore and batchTable = "0"] p b l
  have 1: "initializeHierarchy exampleStore JUndefined (JRef 3) = Inr None"
    "map (\<lambda>(name, table). ft_batchTableHierarchy table) (fm_featureTables exampleBundle) = [None]"
    by simp_all
  from T [where exts = "JRef 6" and s = exampleStore and h = JUndefined
            and binaryBody = "JRef 3"] g(1)
  have 2: "initializeHierarchy exampleStore (JRef 6) (JRef 3) = Inr None" by simp
  from T [where exts = "JRef 9" and s = exampleStore and h = "JRef 10"
            and binaryBody = "JRef 3"] g(2)
  have 3: "initializeHierarchy exampleStore (JRef 9) (JRef 3) =
     Inr (Some \<lparr>bth_extension = JRef 10, bth_binaryBody = JRef 3\<rparr>)" by simp
  from p l 1 2 3 show ?thesis by simp
qed

section \<open>Properties of the orchestrator\<close>




text \<open>
  C9. Running \<^verbatim>\<open>parseBatchTable\<close> a second time on the same options, in the store
  the first run left (with the extensions object written or created, and the warning
  logged), succeeds as the first run did and returns a bundle with the same schema and the
  same feature tables: the same slots, the same views with the same byte offsets and
  element counts, the same JSON table and hierarchy; the extras are the same too. The
  inputs are objects of the store: the batch table, the binary body and the values of the
  batch table's own properties are allocated.
\<close>

theorem parseBatchTable_deterministic:
  assumes "parseBatchTable s opts = Inr (first, s1)"
    and "allocated s (opt_batchTable opts)"
    and "allocated s (opt_binaryBody opts)"
    and "\<forall>batchTable. opt_batchTable opts = JRef batchTable \<longrightarrow>
           (\<forall>v \<in> snd ` set (own (objs s batchTable)). allocated s v)"
  shows "\<exists>second s2.
           parseBatchTable s1 opts = Inr (second, s2) \<and>
           fm_schema second = fm_schema first \<and>
           fm_featureTables second = fm_featureTables first \<and>
           fm_extras second = fm_extras first"
proof -
  from parseBatchTable_Inr [OF assms(1)] obtain bt r hierarchy tr where
    ty: "typeof (opt_count opts) = ''number''" "typeof (opt_binaryBody opts) = ''object''"
    and b: "opt_batchTable opts = JRef bt"
    and pp: "partitionProperties s bt = Inr (r, s1)"
    and ih: "initializeHierarchy s1 (extensions r) (opt_binaryBody opts) = Inr hierarchy"
    and tb: "transcodeBinaryProperties s1 (opt_count opts) (binaryProperties r)
               (opt_binaryBody opts) = Inr tr"
    and first: "first =
             \<lparr>fm_schema = transcodedSchema tr,
              fm_featureTables =
                [(''_batchTable'',
                  \<lparr>ft_featureTable = tr_featureTableJson tr,
                   ft_class = transcodedClass tr,
                   ft_bufferViews = tr_bufferViewsU8 tr,
                   ft_jsonMetadataTable =
                     \<lparr>jmt_count = opt_count opts, jmt_properties = jsonProperties r\<rparr>,
                   ft_batchTableHierarchy = hierarchy\<rparr>)],
              fm_extensions = extensions r, fm_extras = extras r\<rparr>"
    by blast
  from assms(2) b have bt: "bt < nextAddr s" by simp
  from assms(4) b have vals: "\<forall>v \<in> snd ` set (own (objs s bt)). allocated s v" by simp
  from partitionProperties_rerun [OF pp bt vals assms(3), of "opt_count opts"]
  obtain r2 s2 where
    p2: "partitionProperties s1 bt = Inr (r2, s2)"
    and e: "extras r2 = extras r" "jsonProperties r2 = jsonProperties r"
      "binaryProperties r2 = binaryProperties r"
    and ih2: "initializeHierarchy s2 (extensions r2) (opt_binaryBody opts) = Inr hierarchy"
    and tb2: "transcodeBinaryProperties s2 (opt_count opts) (binaryProperties r)
               (opt_binaryBody opts) = Inr tr"
    using ih tb by auto
  let ?second = "\<lparr>fm_schema = transcodedSchema tr,
              fm_featureTables =
                [(''_batchTable'',
                  \<lparr>ft_featureTable = tr_featureTableJson tr,
                   ft_class = transcodedClass tr,
                   ft_bufferViews = tr_bufferViewsU8 tr,
                   ft_jsonMetadataTable =
                     \<lparr>jmt_count = opt_count opts, jmt_properties = jsonProperties r\<rparr>,
                   ft_batchTableHierarchy = hierarchy\<rparr>)],
              fm_extensions = extensions r2, fm_extras = extras r\<rparr>"
  have "parseBatchTable s1 opts = Inr (?second, s2)"
    using ty b p2 e ih2 tb2 by (simp add: parseBatchTable_def checkTypeOf_def)
  with first show ?thesis
    by (intro exI [of _ ?second] exI [of _ s2]) simp
qed

theorem parseBatchTable_deterministic_witness:
  "\<exists>first s1 second s2.
     parseBatchTable exampleStore legacyOptions = Inr (first, s1) \<and>
     nextAddr exampleStore = 11 \<and> nextAddr s1 = 12 \<and>
     fm_extensions first = JRef 11 \<and>
     parseBatchTable s1 legacyOptions = Inr (second, s2) \<and>
     fm_schema second = fm_schema first \<and>
     fm_featureTables second = fm_featureTables first \<and>
     fm_extras second = fm_extras first"
proof -
  have "\<exists>first s1. parseBatchTable exampleStore legacyOptions = Inr (first, s1) \<and>
          nextAddr s1 = 12 \<and> fm_extensions first = JRef 11"
    by (simp add: eval_simps example_simps legacyOptions_def)
  then obtain first s1 where
    p: "parseBatchTable exampleStore legacyOptions = Inr (first, s1)"
    and n: "nextAddr s1 = 12" "fm_extensions first = JRef 11"
    by blast
  have a: "allocated exampleStore (opt_batchTable legacyOptions)"
    "allocated exampleStore (opt_binaryBody legacyOptions)"
    "\<forall>batchTable. opt_batchTable legacyOptions = JRef batchTable \<longrightarrow>
           (\<forall>v \<in> snd ` set (own (objs exampleStore batchTable)). allocated exampleStore v)"
    and m: "nextAddr exampleStore = 11"
    by (simp_all add: example_simps legacyOptions_def)
  from parseBatchTable_deterministic [OF p a] p n m show ?thesis by blast
qed

end
